theory Spec2Isabelle
  imports Main "HOL-Library.Sublist" "HOL-Library.AList"
begin

section \<open>Python values, exceptions and effects\<close>

text \<open>
  Exceptions raised by the modelled code are values of type \<open>exc\<close>; every constructor
  stands for a subclass of Python's \<open>Exception\<close>, carrying the message that \<open>str(e)\<close>
  returns.  Signals outside \<open>Exception\<close> (\<open>KeyboardInterrupt\<close>, \<open>SystemExit\<close>) are not
  modelled.
\<close>

datatype exc =
    AttributeError string
  | IndexError string
  | ValueError string
  | OtherException string


text \<open>
  A method that mutates some state \<open>'s\<close> and may raise is a function from the state to an
  outcome (\<open>Inl\<close> the exception, \<open>Inr\<close> the returned value) and the state it leaves behind.
\<close>

type_synonym ('s, 'r) py = "'s \<Rightarrow> (exc + 'r) \<times> 's"

definition py_return :: "'r \<Rightarrow> ('s, 'r) py" where
  "py_return v = (\<lambda>s. (Inr v, s))"

definition py_raise :: "exc \<Rightarrow> ('s, 'r) py" where
  "py_raise e = (\<lambda>s. (Inl e, s))"

definition py_bind :: "('s, 'a) py \<Rightarrow> ('a \<Rightarrow> ('s, 'b) py) \<Rightarrow> ('s, 'b) py" where
  "py_bind m f = (\<lambda>s. case m s of (Inl e, s') \<Rightarrow> (Inl e, s') | (Inr v, s') \<Rightarrow> f v s')"

definition py_lift :: "exc + 'r \<Rightarrow> ('s, 'r) py" where
  "py_lift r = (\<lambda>s. (r, s))"

text \<open>\<open>try: body except Exception as e: handler(e)\<close>, the handler not raising again.\<close>

definition py_try :: "('s, unit) py \<Rightarrow> (exc \<Rightarrow> 's \<Rightarrow> 's) \<Rightarrow> ('s, unit) py" where
  "py_try body handler =
     (\<lambda>s. case body s of (Inl e, s') \<Rightarrow> (Inr (), handler e s') | (Inr v, s') \<Rightarrow> (Inr v, s'))"

section \<open>Python string and list primitives\<close>

text \<open>
  Strings are lists of 8-bit characters, a character below 128 being the ASCII character
  of that code.
\<close>

definition is_ascii :: "char \<Rightarrow> bool" where
  "is_ascii c = (\<not> digit7 c)"

definition lower_char :: "char \<Rightarrow> char" where
  "lower_char c =
     (case map_of (zip ''ABCDEFGHIJKLMNOPQRSTUVWXYZ'' ''abcdefghijklmnopqrstuvwxyz'') c of
        None \<Rightarrow> c | Some d \<Rightarrow> d)"

text \<open>
  \<open>s.lower()\<close>.  On a string of ASCII characters it maps the letters A to Z to a to z
  and keeps every other character.  On a string with any other character it is Python's
  Unicode lower-casing, which is the parameter \<open>unicode_lower\<close>.
\<close>

definition py_lower :: "(string \<Rightarrow> string) \<Rightarrow> string \<Rightarrow> string" where
  "py_lower unicode_lower s = (if list_all is_ascii s then map lower_char s else unicode_lower s)"

text \<open>\<open>sub in s\<close> for strings: \<open>sub\<close> occurs in \<open>s\<close> at some position.\<close>

fun py_in :: "string \<Rightarrow> string \<Rightarrow> bool" where
  "py_in sub [] = (sub = [])"
| "py_in sub (c # cs) = (prefix sub (c # cs) \<or> py_in sub cs)"

text \<open>
  \<open>s.split(sep)\<close>: scan from the left, cut at each occurrence of \<open>sep\<close> and go on behind
  it; \<open>acc\<close> is the piece being collected.  An empty separator raises \<open>ValueError\<close>.
\<close>

function split_from :: "string \<Rightarrow> string \<Rightarrow> string \<Rightarrow> string list" where
  "split_from sep acc s =
     (if sep = [] \<or> s = [] then [acc @ s]
      else if prefix sep s then acc # split_from sep [] (drop (length sep) s)
      else split_from sep (acc @ [hd s]) (tl s))"
  by pat_completeness auto
termination
  by (relation "measure (\<lambda>(sep, acc, s). length s)") auto

declare split_from.simps [simp del]

definition py_split :: "string \<Rightarrow> string \<Rightarrow> exc + string list" where
  "py_split sep s =
     (if sep = [] then Inl (ValueError ''empty separator'') else Inr (split_from sep [] s))"

text \<open>\<open>s.strip(chars)\<close>: drop leading and trailing characters that are in \<open>chars\<close>.\<close>

definition py_strip :: "string \<Rightarrow> string \<Rightarrow> string" where
  "py_strip chars s =
     rev (dropWhile (\<lambda>c. c \<in> set chars) (rev (dropWhile (\<lambda>c. c \<in> set chars) s)))"

text \<open>\<open>sep.join(xs)\<close>.\<close>

fun py_join :: "string \<Rightarrow> string list \<Rightarrow> string" where
  "py_join sep [] = []"
| "py_join sep [x] = x"
| "py_join sep (x # y # ys) = x @ sep @ py_join sep (y # ys)"

text \<open>\<open>xs[i]\<close>: an index below zero is taken from the end of the list, and an index
  outside the list raises \<open>IndexError\<close>.\<close>

definition py_index :: "'a list \<Rightarrow> int \<Rightarrow> exc + 'a" where
  "py_index xs i =
     (if 0 \<le> i \<and> i < int (length xs) then Inr (xs ! nat i)
      else if i < 0 \<and> - int (length xs) \<le> i then Inr (xs ! nat (int (length xs) + i))
      else Inl (IndexError ''list index out of range''))"

text \<open>
  \<open>xs[i:]\<close>: a negative start counts from the end and is clipped at the front, a
  non-negative one is clipped at the end.  In particular \<open>xs[-0:]\<close> is \<open>xs[0:]\<close>.
\<close>

definition py_slice_from :: "int \<Rightarrow> 'a list \<Rightarrow> 'a list" where
  "py_slice_from i xs =
     (if i < 0 then drop (nat (int (length xs) + i)) xs else drop (nat i) xs)"

section \<open>WorldModel (world\_model.py)\<close>

text \<open>
  Values stored in the two dictionaries are of Python type \<open>Any\<close>: a string, or any other
  object, left abstract.  A \<open>dict\<close> is an association list in insertion order; assigning to
  an existing key keeps its position, which is what \<^const>\<open>AList.update\<close> does.
\<close>

datatype 'a pyval = PyStr string | PyObj 'a

record 'a WorldModel =
  state :: "(string \<times> 'a pyval) list"
  facts :: "string list"
  user_preferences :: "(string \<times> 'a pyval) list"
  hardware_events :: "string list"

definition WorldModel_init :: "'a WorldModel" where
  "WorldModel_init = \<lparr>state = [], facts = [], user_preferences = [], hardware_events = []\<rparr>"

definition add_fact :: "string \<Rightarrow> 'a WorldModel \<Rightarrow> 'a WorldModel" where
  "add_fact new_fact w = w\<lparr>facts := facts w @ [new_fact]\<rparr>"

definition update_hardware_event :: "string \<Rightarrow> 'a WorldModel \<Rightarrow> 'a WorldModel" where
  "update_hardware_event event_description w =
     w\<lparr>hardware_events := hardware_events w @ [event_description]\<rparr>"

definition set_state :: "string \<Rightarrow> 'a pyval \<Rightarrow> 'a WorldModel \<Rightarrow> 'a WorldModel" where
  "set_state key v w = w\<lparr>state := AList.update key v (state w)\<rparr>"

definition get_state :: "string \<Rightarrow> 'a WorldModel \<Rightarrow> 'a pyval option" where
  "get_state key w = map_of (state w) key"

text \<open>
  \<open>get_summary\<close> formats the key list and the preference dictionary with Python's \<open>str\<close>
  of a list and of a dict; the two formatters are parameters.
\<close>

definition get_summary ::
  "(string list \<Rightarrow> string) \<Rightarrow> ((string \<times> 'a pyval) list \<Rightarrow> string) \<Rightarrow> 'a WorldModel \<Rightarrow> string"
where
  "get_summary str_list str_dict w =
     py_join ''\<newline>''
       [if facts w \<noteq> [] then ''Facts: '' @ py_join ''; '' (facts w)
        else ''No known facts yet.'',
        if hardware_events w \<noteq> [] then ''Hardware Events: '' @ py_join ''; '' (hardware_events w)
        else ''No hardware events recorded.'',
        if state w \<noteq> [] then ''State keys: '' @ str_list (map fst (state w))
        else ''No internal state set yet.'',
        if user_preferences w \<noteq> [] then ''User Preferences: '' @ str_dict (user_preferences w)
        else ''No user preferences stored.'']"

definition update_user_preference :: "string \<Rightarrow> 'a pyval \<Rightarrow> 'a WorldModel \<Rightarrow> 'a WorldModel" where
  "update_user_preference preference_name preference_value w =
     w\<lparr>user_preferences := AList.update preference_name preference_value (user_preferences w)\<rparr>"

definition clear :: "'a WorldModel \<Rightarrow> 'a WorldModel" where
  "clear w = w\<lparr>state := [], facts := [], hardware_events := [], user_preferences := []\<rparr>"

text \<open>The calls a client can make on a WorldModel, and the state each one leaves.\<close>

datatype 'a wm_call =
    Add_fact string
  | Update_hardware_event string
  | Set_state string "'a pyval"
  | Get_state string
  | Get_summary
  | Update_user_preference string "'a pyval"
  | Clear

fun WorldModel_call :: "'a wm_call \<Rightarrow> 'a WorldModel \<Rightarrow> 'a WorldModel" where
  "WorldModel_call (Add_fact f) w = add_fact f w"
| "WorldModel_call (Update_hardware_event e) w = update_hardware_event e w"
| "WorldModel_call (Set_state k v) w = set_state k v w"
| "WorldModel_call (Get_state k) w = w"
| "WorldModel_call Get_summary w = w"
| "WorldModel_call (Update_user_preference k v) w = update_user_preference k v w"
| "WorldModel_call Clear w = clear w"

text \<open>
  Attribute lookup on a WorldModel instance: the methods the class defines and the
  attributes \<open>__init__\<close> sets.  Any other name raises \<open>AttributeError\<close>.
\<close>

definition WorldModel_methods :: "string list" where
  "WorldModel_methods =
     [''__init__'', ''add_fact'', ''update_hardware_event'', ''set_state'', ''get_state'',
      ''get_summary'', ''update_user_preference'', ''clear'']"

definition WorldModel_attributes :: "string list" where
  "WorldModel_attributes = [''state'', ''facts'', ''user_preferences'', ''hardware_events'']"

definition WorldModel_getattr :: "string \<Rightarrow> exc + unit" where
  "WorldModel_getattr name =
     (if name \<in> set (WorldModel_methods @ WorldModel_attributes) then Inr ()
      else Inl (AttributeError
             ([CHR 0x27] @ ''WorldModel'' @ [CHR 0x27] @ '' object has no attribute ''
              @ [CHR 0x27] @ name @ [CHR 0x27])))"

text \<open>
  \<open>world_model.update_hardware_state(component, value)\<close> on a WorldModel instance: the
  attribute is looked up first, and the class has no such method.
\<close>

definition WorldModel_update_hardware_state ::
  "string \<Rightarrow> 'a pyval \<Rightarrow> ('a WorldModel, unit) py"
where
  "WorldModel_update_hardware_state component v =
     py_bind (py_lift (WorldModel_getattr ''update_hardware_state'')) (\<lambda>_. py_return ())"

text \<open>
  The world-model object handed to ChatHandlerWorld and to HardwareIntegration is any
  object with these methods (Python checks nothing else); each may mutate the object
  and may raise.
\<close>

record ('w, 'a) wm_object =
  obj_add_fact :: "string \<Rightarrow> ('w, unit) py"
  obj_update_hardware_event :: "string \<Rightarrow> ('w, unit) py"
  obj_update_user_preference :: "string \<Rightarrow> 'a pyval \<Rightarrow> ('w, unit) py"
  obj_get_summary :: "('w, string) py"
  obj_update_hardware_state :: "string \<Rightarrow> 'a pyval \<Rightarrow> ('w, unit) py"

text \<open>An instance of the class WorldModel of world\_model.py.\<close>

definition WorldModel_object ::
  "(string list \<Rightarrow> string) \<Rightarrow> ((string \<times> 'a pyval) list \<Rightarrow> string)
     \<Rightarrow> ('a WorldModel, 'a) wm_object"
where
  "WorldModel_object str_list str_dict =
     \<lparr>obj_add_fact = (\<lambda>f w. (Inr (), add_fact f w)),
      obj_update_hardware_event = (\<lambda>e w. (Inr (), update_hardware_event e w)),
      obj_update_user_preference = (\<lambda>k v w. (Inr (), update_user_preference k v w)),
      obj_get_summary = (\<lambda>w. (Inr (get_summary str_list str_dict w), w)),
      obj_update_hardware_state = WorldModel_update_hardware_state\<rparr>"



section \<open>APIHandler (api\_handler.py)\<close>

record api_message =
  role :: string
  content :: string

text \<open>The messages of one request: the system prompt, if given and non-empty, goes first.\<close>

definition formatted_messages :: "api_message list \<Rightarrow> string option \<Rightarrow> api_message list" where
  "formatted_messages messages system_prompt =
     (case system_prompt of
        None \<Rightarrow> []
      | Some p \<Rightarrow> if p \<noteq> [] then [\<lparr>role = ''system'', content = p\<rparr>] else [])
     @ messages"

text \<open>
  \<open>s.strip()\<close> without argument.  On a string of ASCII characters it removes, at both
  ends, the ASCII characters for which \<open>str.isspace\<close> holds.  On a string with any other
  character it is Python's Unicode-aware strip, the parameter \<open>unicode_strip\<close>.
\<close>

definition py_whitespace :: string where
  "py_whitespace =
     [CHR 0x20, CHR 0x09, CHR 0x0A, CHR 0x0B, CHR 0x0C, CHR 0x0D, CHR 0x1C, CHR 0x1D, CHR 0x1E,
      CHR 0x1F]"

definition py_strip_whitespace :: "(string \<Rightarrow> string) \<Rightarrow> string \<Rightarrow> string" where
  "py_strip_whitespace unicode_strip s =
     (if list_all is_ascii s then py_strip py_whitespace s else unicode_strip s)"

text \<open>
  One attempt of \<open>APIHandler.generate_response\<close>.  The request to the remote model
  (\<open>openai.ChatCompletion.acreate\<close>) is the parameter \<open>acreate\<close>: it is given the formatted
  messages and returns the content of the first choice, or raises.  Every handler of the
  attempt raises the exception again.  Waiting (rate limit, back-off) is not modelled.
\<close>

definition APIHandler_attempt ::
  "(string \<Rightarrow> string) \<Rightarrow> (api_message list \<Rightarrow> exc + string) \<Rightarrow> api_message list
     \<Rightarrow> string option \<Rightarrow> exc + string"
where
  "APIHandler_attempt unicode_strip acreate messages system_prompt =
     (case acreate (formatted_messages messages system_prompt) of
        Inl e \<Rightarrow> Inl e
      | Inr c \<Rightarrow> Inr (py_strip_whitespace unicode_strip c))"

text \<open>
  The decorator \<open>@retry(stop=stop_after_attempt(3), reraise=True)\<close>: up to three attempts,
  the last exception raised again; \<open>acreate n\<close> is the remote model at attempt \<open>n\<close>.
\<close>

definition APIHandler_generate_response ::
  "(string \<Rightarrow> string) \<Rightarrow> (nat \<Rightarrow> api_message list \<Rightarrow> exc + string) \<Rightarrow> api_message list
     \<Rightarrow> string option \<Rightarrow> exc + string"
where
  "APIHandler_generate_response unicode_strip acreate messages system_prompt =
     (case APIHandler_attempt unicode_strip (acreate 0) messages system_prompt of
        Inr r \<Rightarrow> Inr r
      | Inl _ \<Rightarrow>
         (case APIHandler_attempt unicode_strip (acreate 1) messages system_prompt of
            Inr r \<Rightarrow> Inr r
          | Inl _ \<Rightarrow> APIHandler_attempt unicode_strip (acreate 2) messages system_prompt))"

section \<open>ChatHandlerWorld (chat\_handler\_world.py)\<close>

record history_message = api_message +
  timestamp :: string

text \<open>
  A ChatHandlerWorld object after its construction.  Of the configuration dictionary the
  methods read the key SYSTEM\_PROMPT only; \<open>max_history\<close> is the integer that
  \<open>__init__\<close> took from the key MAX\_CONVERSATION\_HISTORY (10 when the key is absent).
\<close>

record config =
  SYSTEM_PROMPT :: "string option"

record 'w ChatHandlerWorld =
  config :: config
  world_model :: 'w
  conversation_history :: "history_message list"
  max_history :: int

definition on_world_model :: "('w, 'r) py \<Rightarrow> ('w ChatHandlerWorld, 'r) py" where
  "on_world_model m = (\<lambda>h. case m (world_model h) of (r, w) \<Rightarrow> (r, h\<lparr>world_model := w\<rparr>))"

definition hardware_keywords :: "string list" where
  "hardware_keywords = [''button'', ''motion'', ''sensor'', ''led'']"

text \<open>The \<open>for keyword in hardware_keywords\<close> loop.\<close>

fun record_hardware_keywords ::
  "(string \<Rightarrow> string) \<Rightarrow> ('w, 'a) wm_object \<Rightarrow> string \<Rightarrow> string list \<Rightarrow> ('w, unit) py"
where
  "record_hardware_keywords unicode_lower obj response_text [] = py_return ()"
| "record_hardware_keywords unicode_lower obj response_text (keyword # keywords) =
     py_bind
       (if py_in keyword (py_lower unicode_lower response_text)
        then obj_update_hardware_event obj (''Hardware interaction mentioned: '' @ keyword)
        else py_return ())
       (\<lambda>_. record_hardware_keywords unicode_lower obj response_text keywords)"

text \<open>The body of the \<open>try\<close> statement of \<open>_update_world_model_from_response\<close>.\<close>

definition update_world_model_from_response_body ::
  "(string \<Rightarrow> string) \<Rightarrow> ('w, 'a) wm_object \<Rightarrow> string \<Rightarrow> ('w, unit) py"
where
  "update_world_model_from_response_body unicode_lower obj response_text =
     py_bind
       (if py_in ''I learned that'' response_text
        then py_bind (py_lift (py_split ''I learned that'' response_text))
               (\<lambda>pieces. py_bind (py_lift (py_index pieces (- 1)))
                 (\<lambda>piece. obj_add_fact obj (py_strip ''. '' piece)))
        else py_return ())
       (\<lambda>_. py_bind
          (if py_in ''you prefer'' (py_lower unicode_lower response_text)
           then py_bind (py_lift (py_split ''you prefer'' (py_lower unicode_lower response_text)))
                  (\<lambda>pieces. py_bind (py_lift (py_index pieces 1))
                    (\<lambda>piece. obj_update_user_preference obj ''user_preference''
                                (PyStr (py_strip ''. '' piece))))
           else py_return ())
          (\<lambda>_. record_hardware_keywords unicode_lower obj response_text hardware_keywords))"

text \<open>\<open>_update_world_model_from_response\<close>: the handler logs the exception and returns.\<close>

definition update_world_model_from_response ::
  "(string \<Rightarrow> string) \<Rightarrow> ('w, 'a) wm_object \<Rightarrow> string \<Rightarrow> ('w, unit) py"
where
  "update_world_model_from_response unicode_lower obj response_text =
     py_try (update_world_model_from_response_body unicode_lower obj response_text) (\<lambda>e w. w)"

definition default_system_prompt :: string where
  "default_system_prompt = ''You are a helpful AI assistant.''"

definition full_system_prompt :: "string \<Rightarrow> string \<Rightarrow> string" where
  "full_system_prompt system_prompt world_summary =
     system_prompt @ ''\<newline>\<newline>''
     @ ''Here is a summary of known facts and events so far:\<newline>'' @ world_summary
     @ ''\<newline>\<newline>''
     @ ''Use this information to provide coherent answers while respecting user context.''"

text \<open>
  The list \<open>messages\<close> that \<open>generate_response\<close> builds: the system message, then role
  and content of each entry of \<open>conversation_history[-max_history:]\<close>.
\<close>

definition build_messages :: "string \<Rightarrow> int \<Rightarrow> history_message list \<Rightarrow> api_message list" where
  "build_messages system_text mh history =
     \<lparr>role = ''system'', content = system_text\<rparr>
     # map (\<lambda>msg. \<lparr>role = role msg, content = content msg\<rparr>) (py_slice_from (- mh) history)"

definition append_history :: "history_message \<Rightarrow> ('w ChatHandlerWorld, unit) py" where
  "append_history msg =
     (\<lambda>h. (Inr (), h\<lparr>conversation_history := conversation_history h @ [msg]\<rparr>))"

text \<open>
  \<open>ChatHandlerWorld.generate_response\<close>.  \<open>api\<close> is \<open>self.api_handler.generate_response\<close>
  (what it returns or raises for the messages and system prompt it is given);
  \<open>t_user\<close> and \<open>t_reply\<close> are the two values of \<open>str(time())\<close>.  The handler around the
  whole body logs and raises the same exception again, so it changes neither outcome nor
  state.
\<close>

definition generate_response ::
  "(string \<Rightarrow> string) \<Rightarrow> ('w, 'a) wm_object
     \<Rightarrow> (api_message list \<Rightarrow> string option \<Rightarrow> exc + string)
     \<Rightarrow> string \<Rightarrow> string \<Rightarrow> string \<Rightarrow> ('w ChatHandlerWorld, string) py"
where
  "generate_response unicode_lower obj api t_user t_reply prompt =
     py_bind (append_history \<lparr>role = ''user'', content = prompt, timestamp = t_user\<rparr>)
     (\<lambda>_. py_bind (on_world_model (obj_get_summary obj))
     (\<lambda>world_summary h.
        (let system_prompt =
               (case SYSTEM_PROMPT (config h) of None \<Rightarrow> default_system_prompt | Some p \<Rightarrow> p);
             system_text = full_system_prompt system_prompt world_summary;
             messages = build_messages system_text (max_history h) (conversation_history h)
         in py_bind (py_lift (api messages (Some system_text)))
            (\<lambda>response_text.
               py_bind (append_history
                          \<lparr>role = ''assistant'', content = response_text, timestamp = t_reply\<rparr>)
               (\<lambda>_. py_bind
                       (on_world_model
                          (update_world_model_from_response unicode_lower obj response_text))
               (\<lambda>_. py_return response_text)))) h))"

section \<open>HardwareIntegration (hardware\_integration.py)\<close>

datatype level = DEBUG | INFO | WARNING | ERROR

text \<open>
  The object, with the records written to its logger.  A callback takes no argument; what
  it does to the shared world model is its effect here.
\<close>

record 'w HardwareIntegration =
  hw_world_model :: 'w
  event_callbacks :: "(string \<times> ('w, unit) py) list"
  logged :: "(level \<times> string) list"


text \<open>
  The module object \<open>GPIO\<close>: looking up \<open>GPIO.LOW\<close> or \<open>GPIO.HIGH\<close> gives a level or
  raises.  A level is a truth value (Python compares 0 and 1 equal to \<open>False\<close> and
  \<open>True\<close>).  \<open>RPi_GPIO\<close> is the library RPi.GPIO, whose \<open>LOW\<close> is 0 and \<open>HIGH\<close> is 1;
  \<open>GPIOWrapper\<close> is the fallback class of gpio\_wrapper.py, which defines neither.
\<close>

record gpio_module =
  gpio_LOW :: "exc + bool"
  gpio_HIGH :: "exc + bool"


definition GPIOWrapper :: gpio_module where
  "GPIOWrapper =
     \<lparr>gpio_LOW = Inl (AttributeError
          ([CHR 0x27] @ ''GPIOWrapper'' @ [CHR 0x27] @ '' object has no attribute ''
           @ [CHR 0x27] @ ''LOW'' @ [CHR 0x27])),
      gpio_HIGH = Inl (AttributeError
          ([CHR 0x27] @ ''GPIOWrapper'' @ [CHR 0x27] @ '' object has no attribute ''
           @ [CHR 0x27] @ ''HIGH'' @ [CHR 0x27]))\<rparr>"


definition log_record :: "level \<Rightarrow> string \<Rightarrow> ('w, 'z) HardwareIntegration_scheme
     \<Rightarrow> ('w, 'z) HardwareIntegration_scheme" where
  "log_record l m h = h\<lparr>logged := logged h @ [(l, m)]\<rparr>"







text \<open>The events fired: the descriptions that \<open>_handle_event\<close> logged, in order.\<close>

definition events_fired :: "('w, 'z) HardwareIntegration_scheme \<Rightarrow> string list" where
  "events_fired h =
     map snd (filter (\<lambda>r. fst r = DEBUG \<and> prefix ''Hardware event: '' (snd r)) (logged h))"



section \<open>The spec's wording of the extraction rules\<close>

text \<open>
  The text following the last occurrence of \<open>sep\<close> in a string: the occurrence that
  starts furthest to the right.  \<open>None\<close> when \<open>sep\<close> does not occur.
\<close>

fun text_after_last :: "string \<Rightarrow> string \<Rightarrow> string option" where
  "text_after_last sep [] = (if sep = [] then Some [] else None)"
| "text_after_last sep (c # cs) =
     (case text_after_last sep cs of
        Some t \<Rightarrow> Some t
      | None \<Rightarrow> if prefix sep (c # cs) then Some (drop (length sep) (c # cs)) else None)"

text \<open>The text after the first (leftmost) occurrence of \<open>sep\<close>, and the text before it.\<close>

fun text_after_first :: "string \<Rightarrow> string \<Rightarrow> string option" where
  "text_after_first sep [] = (if sep = [] then Some [] else None)"
| "text_after_first sep (c # cs) =
     (if prefix sep (c # cs) then Some (drop (length sep) (c # cs))
      else text_after_first sep cs)"

fun text_before_first :: "string \<Rightarrow> string \<Rightarrow> string" where
  "text_before_first sep [] = []"
| "text_before_first sep (c # cs) =
     (if prefix sep (c # cs) then [] else c # text_before_first sep cs)"

section \<open>Auxiliary definitions for the statements\<close>

text \<open>
  What each of the three extraction rules does to an instance of WorldModel, written
  with the pieces that \<open>split\<close> returns.
\<close>

definition learn_step :: "string \<Rightarrow> 'a WorldModel \<Rightarrow> 'a WorldModel" where
  "learn_step r w =
     (if py_in ''I learned that'' r
      then add_fact (py_strip ''. '' (last (split_from ''I learned that'' [] r))) w else w)"

definition prefer_step :: "(string \<Rightarrow> string) \<Rightarrow> string \<Rightarrow> 'a WorldModel \<Rightarrow> 'a WorldModel" where
  "prefer_step ul r w =
     (if py_in ''you prefer'' (py_lower ul r)
      then update_user_preference ''user_preference''
             (PyStr (py_strip ''. '' (split_from ''you prefer'' [] (py_lower ul r) ! 1))) w
      else w)"

definition keyword_step :: "(string \<Rightarrow> string) \<Rightarrow> string \<Rightarrow> 'a WorldModel \<Rightarrow> 'a WorldModel" where
  "keyword_step ul r w =
     w\<lparr>hardware_events := hardware_events w
        @ map (\<lambda>k. ''Hardware interaction mentioned: '' @ k)
            (filter (\<lambda>k. py_in k (py_lower ul r)) hardware_keywords)\<rparr>"

text \<open>A WorldModel instance with simple formatters, for the concrete runs below.\<close>

definition sample_str_list :: "string list \<Rightarrow> string" where
  "sample_str_list ks = ''['' @ py_join '', '' ks @ '']''"

definition sample_str_dict :: "(string \<times> unit pyval) list \<Rightarrow> string" where
  "sample_str_dict d = ''{'' @ py_join '', '' (map fst d) @ ''}''"

definition sample_world :: "(unit WorldModel, unit) wm_object" where
  "sample_world = WorldModel_object sample_str_list sample_str_dict"

text \<open>
  A stand-in for Python's Unicode lower-casing in the concrete runs: besides the ASCII
  letters it lower-cases the character of code 0xC9 to the one of code 0xE9.
\<close>

definition sample_unicode_lower :: "string \<Rightarrow> string" where
  "sample_unicode_lower s = map (\<lambda>c. if c = CHR 0xC9 then CHR 0xE9 else lower_char c) s"

text \<open>
  The system prompt and the list \<open>messages\<close> of one turn, as \<open>generate_response\<close>
  computes them from the object, the world summary and the user's prompt.
\<close>

definition turn_system_text :: "'w ChatHandlerWorld \<Rightarrow> string \<Rightarrow> string" where
  "turn_system_text h world_summary =
     full_system_prompt
       (case SYSTEM_PROMPT (config h) of None \<Rightarrow> default_system_prompt | Some p \<Rightarrow> p)
       world_summary"

definition turn_messages :: "'w ChatHandlerWorld \<Rightarrow> string \<Rightarrow> string \<Rightarrow> string \<Rightarrow> api_message list" where
  "turn_messages h world_summary t_user prompt =
     build_messages (turn_system_text h world_summary) (max_history h)
       (conversation_history h @ [\<lparr>role = ''user'', content = prompt, timestamp = t_user\<rparr>])"

text \<open>
  Concrete objects for the runs below: a world-model object whose \<open>add_fact\<close> raises, a
  remote model that answers with the roles of the messages it was sent, a history of four
  messages and a handler holding it.
\<close>

definition failing_world :: "(unit WorldModel, unit) wm_object" where
  "failing_world =
     sample_world\<lparr>obj_add_fact := (\<lambda>f w. (Inl (OtherException ''fact store failed''), w))\<rparr>"

definition echo_roles :: "nat \<Rightarrow> api_message list \<Rightarrow> exc + string" where
  "echo_roles n msgs = Inr (py_join '','' (map role msgs))"

definition sample_history :: "history_message list" where
  "sample_history =
     [\<lparr>role = ''user'', content = ''q1'', timestamp = ''1''\<rparr>,
      \<lparr>role = ''assistant'', content = ''r1'', timestamp = ''2''\<rparr>,
      \<lparr>role = ''user'', content = ''q2'', timestamp = ''3''\<rparr>,
      \<lparr>role = ''assistant'', content = ''r2'', timestamp = ''4''\<rparr>]"

definition sample_handler :: "int \<Rightarrow> unit WorldModel ChatHandlerWorld" where
  "sample_handler mh =
     \<lparr>config = \<lparr>SYSTEM_PROMPT = None\<rparr>,
      world_model = \<lparr>state = [], facts = [''known''], user_preferences = [],
                      hardware_events = []\<rparr>,
      conversation_history = sample_history, max_history = mh\<rparr>"





section \<open>WorldModel: growth of the two sequences, and the missing method\<close>

lemma WorldModel_call_facts:
  "c \<noteq> Clear \<Longrightarrow> prefix (facts w) (facts (WorldModel_call c w))"
  by (cases c) (simp_all add: add_fact_def update_hardware_event_def set_state_def
      update_user_preference_def)

lemma WorldModel_call_hardware_events:
  "c \<noteq> Clear \<Longrightarrow> prefix (hardware_events w) (hardware_events (WorldModel_call c w))"
  by (cases c) (simp_all add: add_fact_def update_hardware_event_def set_state_def
      update_user_preference_def)

lemma fold_WorldModel_call_facts:
  "Clear \<notin> set cs \<Longrightarrow> prefix (facts w) (facts (fold WorldModel_call cs w))"
proof (induction cs arbitrary: w)
  case Nil
  show ?case by simp
next
  case (Cons c cs)
  have "prefix (facts w) (facts (WorldModel_call c w))"
    using Cons.prems by (auto intro!: WorldModel_call_facts)
  moreover have "prefix (facts (WorldModel_call c w)) (facts (fold WorldModel_call cs (WorldModel_call c w)))"
    using Cons.prems by (intro Cons.IH) simp
  ultimately show ?case
    using prefix_order.trans by fastforce
qed

lemma fold_WorldModel_call_hardware_events:
  "Clear \<notin> set cs \<Longrightarrow> prefix (hardware_events w) (hardware_events (fold WorldModel_call cs w))"
proof (induction cs arbitrary: w)
  case Nil
  show ?case by simp
next
  case (Cons c cs)
  have "prefix (hardware_events w) (hardware_events (WorldModel_call c w))"
    using Cons.prems by (auto intro!: WorldModel_call_hardware_events)
  moreover have "prefix (hardware_events (WorldModel_call c w))
      (hardware_events (fold WorldModel_call cs (WorldModel_call c w)))"
    using Cons.prems by (intro Cons.IH) simp
  ultimately show ?case
    using prefix_order.trans by fastforce
qed

text \<open>
  Claim C9.  Whatever calls are made on a WorldModel, as long as none of them is
  \<open>clear()\<close>, the facts and the hardware events it held before are still there, in the same
  positions, as the front part of the two sequences: the calls only append.  \<open>clear()\<close>
  leaves all four collections (state, facts, preferences, hardware events) empty.
\<close>

theorem sequences_grow_until_clear:
  "(Clear \<notin> set cs \<longrightarrow>
      prefix (facts w) (facts (fold WorldModel_call cs w)) \<and>
      prefix (hardware_events w) (hardware_events (fold WorldModel_call cs w))) \<and>
   WorldModel_call Clear w =
     \<lparr>state = [], facts = [], user_preferences = [], hardware_events = []\<rparr>"
  by (simp add: fold_WorldModel_call_facts fold_WorldModel_call_hardware_events clear_def)

theorem sequences_grow_until_clear_witness:
  "Clear \<notin> set [Add_fact ''b'', Set_state ''k'' (PyStr ''v''), Update_hardware_event ''e'',
                 Update_user_preference ''p'' (PyObj ()), Get_summary, Get_state ''k''] \<and>
   prefix [''a'']
     (facts (fold WorldModel_call
        [Add_fact ''b'', Set_state ''k'' (PyStr ''v''), Update_hardware_event ''e'',
         Update_user_preference ''p'' (PyObj ()), Get_summary, Get_state ''k'']
        \<lparr>state = [], facts = [''a''], user_preferences = [], hardware_events = [''h'']\<rparr>)) \<and>
   prefix [''h'']
     (hardware_events (fold WorldModel_call
        [Add_fact ''b'', Set_state ''k'' (PyStr ''v''), Update_hardware_event ''e'',
         Update_user_preference ''p'' (PyObj ()), Get_summary, Get_state ''k'']
        \<lparr>state = [], facts = [''a''], user_preferences = [], hardware_events = [''h'']\<rparr>)) \<and>
   WorldModel_call Clear
     \<lparr>state = [(''k'', PyObj ())], facts = [''a''], user_preferences = [],
      hardware_events = [''h'']\<rparr>
     = \<lparr>state = [], facts = [], user_preferences = [], hardware_events = []\<rparr>"
  using sequences_grow_until_clear
    [of "[Add_fact ''b'', Set_state ''k'' (PyStr ''v''), Update_hardware_event ''e'',
          Update_user_preference ''p'' (PyObj ()), Get_summary, Get_state ''k'']"
        "\<lparr>state = [], facts = [''a''], user_preferences = [], hardware_events = [''h'']\<rparr>"]
    sequences_grow_until_clear
    [of "[]" "\<lparr>state = [(''k'', PyObj ())], facts = [''a''], user_preferences = [],
              hardware_events = [''h'']\<rparr>"]
  by simp

text \<open>
  Claim C2.  On an instance of WorldModel the call \<open>update_hardware_state(component, value)\<close>
  stores nothing: for every component and value it raises \<open>AttributeError\<close> and leaves the
  object as it was, because the class defines no such method.
\<close>

theorem update_hardware_state_raises:
  "WorldModel_update_hardware_state component v w =
     (Inl (AttributeError
            ([CHR 0x27] @ ''WorldModel'' @ [CHR 0x27] @ '' object has no attribute ''
             @ [CHR 0x27] @ ''update_hardware_state'' @ [CHR 0x27])), w)"
  by (simp add: WorldModel_update_hardware_state_def WorldModel_getattr_def
      WorldModel_methods_def WorldModel_attributes_def py_bind_def py_lift_def)

section \<open>The extraction rules on an instance of WorldModel\<close>

subsection \<open>\<open>split\<close>: its last piece and its second piece\<close>

lemma split_from_nonempty: "split_from sep acc s \<noteq> []"
  by (induction sep acc s rule: split_from.induct) (subst split_from.simps, simp)

lemma text_after_last_skip:
  "a \<notin> set xs \<Longrightarrow> text_after_last (a # sep') (xs @ rest) = text_after_last (a # sep') rest"
  by (induction xs) (auto split: option.splits)

lemma text_after_last_at_occurrence:
  assumes "hd sep \<notin> set (tl sep)" and "sep \<noteq> []"
  shows "text_after_last sep (sep @ rest) =
           Some (case text_after_last sep rest of None \<Rightarrow> rest | Some t \<Rightarrow> t)"
proof -
  obtain a sep' where sep: "sep = a # sep'"
    using assms(2) by (cases sep) auto
  with assms(1) have "a \<notin> set sep'" by simp
  then have "text_after_last (a # sep') (sep' @ rest) = text_after_last (a # sep') rest"
    by (rule text_after_last_skip)
  then show ?thesis
    by (simp add: sep split: option.splits)
qed

lemma last_split_from:
  "hd sep \<notin> set (tl sep) \<Longrightarrow> sep \<noteq> [] \<Longrightarrow>
   last (split_from sep acc s) =
     (case text_after_last sep s of None \<Rightarrow> acc @ s | Some t \<Rightarrow> t)"
proof (induction sep acc s rule: split_from.induct)
  case (1 sep acc s)
  show ?case
  proof (cases "s = []")
    case True
    with "1.prems" show ?thesis
      by (subst split_from.simps) simp
  next
    case nonempty: False
    show ?thesis
    proof (cases "prefix sep s")
      case True
      then obtain rest where s: "s = sep @ rest"
        by (auto simp: prefix_def)
      have "last (split_from sep acc s) = last (split_from sep [] rest)"
        using "1.prems" nonempty True s
        by (subst split_from.simps) (simp add: split_from_nonempty)
      also have "\<dots> = (case text_after_last sep rest of None \<Rightarrow> rest | Some t \<Rightarrow> t)"
        using "1.IH"(1) [OF _ True] "1.prems" nonempty s by (simp split: option.splits)
      finally show ?thesis
        using text_after_last_at_occurrence [OF "1.prems", of rest] s by simp
    next
      case False
      obtain c cs where s: "s = c # cs"
        using nonempty by (cases s) auto
      have "last (split_from sep acc s) = last (split_from sep (acc @ [c]) cs)"
        using "1.prems" nonempty False s by (subst split_from.simps) simp
      also have "\<dots> = (case text_after_last sep cs of None \<Rightarrow> acc @ s | Some t \<Rightarrow> t)"
        using "1.IH"(2) [OF _ False] "1.prems" nonempty s by (simp split: option.splits)
      finally show ?thesis
        using False s by (simp split: option.splits)
    qed
  qed
qed

lemma py_in_text_after_last: "py_in sep s \<longleftrightarrow> text_after_last sep s \<noteq> None"
  by (induction s) (auto split: option.splits)

lemma py_in_text_after_first: "py_in sep s \<longleftrightarrow> text_after_first sep s \<noteq> None"
  by (induction s) (auto split: option.splits)

lemma hd_split_from:
  "sep \<noteq> [] \<Longrightarrow> hd (split_from sep acc s) = acc @ text_before_first sep s"
proof (induction sep acc s rule: split_from.induct)
  case (1 sep acc s)
  show ?case
  proof (cases s)
    case Nil
    then show ?thesis by (subst split_from.simps) simp
  next
    case (Cons c cs)
    show ?thesis
    proof (cases "prefix sep s")
      case True
      then show ?thesis using Cons "1.prems" by (subst split_from.simps) simp
    next
      case False
      then show ?thesis
        using Cons "1.prems" "1.IH"(2) [OF _ False] by (subst split_from.simps) simp
    qed
  qed
qed

lemma split_from_first:
  "sep \<noteq> [] \<Longrightarrow> text_after_first sep s = Some t \<Longrightarrow>
   split_from sep acc s = (acc @ text_before_first sep s) # split_from sep [] t"
proof (induction sep acc s rule: split_from.induct)
  case (1 sep acc s)
  from "1.prems" obtain c cs where s: "s = c # cs"
    by (cases s) auto
  show ?case
  proof (cases "prefix sep s")
    case True
    then show ?thesis
      using s "1.prems" by (subst split_from.simps) simp
  next
    case False
    then show ?thesis
      using s "1.prems" "1.IH"(2) [OF _ False] by (subst split_from.simps) simp
  qed
qed

lemma split_from_second:
  assumes "sep \<noteq> []" and "text_after_first sep s = Some t"
  shows "1 < length (split_from sep acc s)"
    and "split_from sep acc s ! 1 = text_before_first sep t"
proof -
  have eq: "split_from sep acc s = (acc @ text_before_first sep s) # split_from sep [] t"
    using assms by (rule split_from_first)
  show "1 < length (split_from sep acc s)"
    using split_from_nonempty [of sep "[]" t] by (simp add: eq)
  have "split_from sep acc s ! 1 = hd (split_from sep [] t)"
    using split_from_nonempty [of sep "[]" t] by (simp add: eq hd_conv_nth)
  then show "split_from sep acc s ! 1 = text_before_first sep t"
    using assms(1) by (simp add: hd_split_from)
qed

lemma py_index_last: "xs \<noteq> [] \<Longrightarrow> py_index xs (- 1) = Inr (last xs)"
  by (cases xs rule: rev_cases) (simp_all add: py_index_def nat_add_distrib)

lemma py_index_second: "1 < length xs \<Longrightarrow> py_index xs 1 = Inr (xs ! 1)"
  by (simp add: py_index_def)

lemma record_hardware_keywords_WorldModel:
  "record_hardware_keywords ul (WorldModel_object sl sd) r ks w =
     (Inr (), w\<lparr>hardware_events := hardware_events w
        @ map (\<lambda>k. ''Hardware interaction mentioned: '' @ k)
            (filter (\<lambda>k. py_in k (py_lower ul r)) ks)\<rparr>)"
  by (induction ks arbitrary: w)
    (simp_all add: py_return_def py_bind_def WorldModel_object_def update_hardware_event_def)

lemma learn_part:
  "(if py_in ''I learned that'' r
        then py_bind (py_lift (py_split ''I learned that'' r))
               (\<lambda>pieces. py_bind (py_lift (py_index pieces (- 1)))
                 (\<lambda>piece. obj_add_fact (WorldModel_object sl sd) (py_strip ''. '' piece)))
        else py_return ()) w = (Inr (), learn_step r w)"
  by (simp add: learn_step_def py_bind_def py_lift_def py_return_def py_split_def
      py_index_last split_from_nonempty WorldModel_object_def)

lemma prefer_part:
  "(if py_in ''you prefer'' (py_lower ul r)
           then py_bind (py_lift (py_split ''you prefer'' (py_lower ul r)))
                  (\<lambda>pieces. py_bind (py_lift (py_index pieces 1))
                    (\<lambda>piece. obj_update_user_preference (WorldModel_object sl sd) ''user_preference''
                                (PyStr (py_strip ''. '' piece))))
           else py_return ()) w = (Inr (), prefer_step ul r w)"
proof (cases "py_in ''you prefer'' (py_lower ul r)")
  case True
  then obtain t where "text_after_first ''you prefer'' (py_lower ul r) = Some t"
    by (auto simp: py_in_text_after_first)
  then have "1 < length (split_from ''you prefer'' [] (py_lower ul r))"
    by (intro split_from_second(1)) simp_all
  then show ?thesis
    using True
    by (simp add: prefer_step_def py_bind_def py_lift_def py_split_def py_index_second
        WorldModel_object_def)
next
  case False
  then show ?thesis by (simp add: prefer_step_def py_return_def)
qed

lemma update_world_model_from_response_WorldModel:
  "update_world_model_from_response ul (WorldModel_object sl sd) r w =
     (Inr (), keyword_step ul r (prefer_step ul r (learn_step r w)))"
  unfolding update_world_model_from_response_def update_world_model_from_response_body_def
  by (simp add: py_try_def py_bind_def [of "If _ _ _"] learn_part prefer_part
      record_hardware_keywords_WorldModel keyword_step_def)

lemma facts_after_steps [simp]:
  "facts (keyword_step ul r (prefer_step ul r' w)) = facts w"
  by (simp add: keyword_step_def prefer_step_def update_user_preference_def)

lemma lower_ascii:
  "list_all is_ascii s \<Longrightarrow> py_lower ul s = map lower_char s"
  by (simp add: py_lower_def)

text \<open>
  Claim C4.  Whenever the reply contains "I learned that", the extraction step adds
  exactly one fact at the end of the facts of the WorldModel: the text following the last
  occurrence of "I learned that", with the periods and spaces at its two ends removed.
  The reply "Sure, I learned that the sky is blue." adds the fact "the sky is blue".
\<close>

theorem learned_fact_added:
  "(py_in ''I learned that'' reply \<longrightarrow>
      (\<exists>t. text_after_last ''I learned that'' reply = Some t \<and>
           facts (snd (update_world_model_from_response ul (WorldModel_object sl sd) reply w))
             = facts w @ [py_strip ''. '' t])) \<and>
   facts (snd (update_world_model_from_response ul (WorldModel_object sl sd)
                 ''Sure, I learned that the sky is blue.'' w))
     = facts w @ [''the sky is blue'']"
proof -
  have general: "\<exists>t. text_after_last ''I learned that'' r = Some t \<and>
           facts (snd (update_world_model_from_response ul (WorldModel_object sl sd) r w))
             = facts w @ [py_strip ''. '' t]" if occ: "py_in ''I learned that'' r" for r
  proof -
    from occ obtain t where t: "text_after_last ''I learned that'' r = Some t"
      by (auto simp: py_in_text_after_last)
    have "last (split_from ''I learned that'' [] r) = t"
      using last_split_from [of "''I learned that''" "[]" r] t by simp
    then show ?thesis
      using occ t
      by (simp add: update_world_model_from_response_WorldModel learn_step_def add_fact_def)
  qed
  have occ: "py_in ''I learned that'' ''Sure, I learned that the sky is blue.''"
    by simp
  have "text_after_last ''I learned that'' ''Sure, I learned that the sky is blue.''
          = Some '' the sky is blue.''"
    by simp
  moreover have "py_strip ''. '' '' the sky is blue.'' = ''the sky is blue''"
    by (simp add: py_strip_def)
  ultimately show ?thesis
    using general [OF occ] general by auto
qed

theorem learned_fact_added_witness:
  "py_in ''I learned that'' ''I learned that cats purr. Also I learned that dogs bark...'' \<and>
   text_after_last ''I learned that'' ''I learned that cats purr. Also I learned that dogs bark...''
     = Some '' dogs bark...'' \<and>
   facts (snd (update_world_model_from_response sample_unicode_lower sample_world
            ''I learned that cats purr. Also I learned that dogs bark...''
            \<lparr>state = [], facts = [''old''], user_preferences = [], hardware_events = []\<rparr>))
     = [''old'', ''dogs bark'']"
proof -
  have occ: "py_in ''I learned that'' ''I learned that cats purr. Also I learned that dogs bark...''"
    by simp
  have t: "text_after_last ''I learned that'' ''I learned that cats purr. Also I learned that dogs bark...''
     = Some '' dogs bark...''"
    by simp
  have "py_strip ''. '' '' dogs bark...'' = ''dogs bark''"
    by (simp add: py_strip_def)
  then show ?thesis
    using occ t learned_fact_added
      [where reply = "''I learned that cats purr. Also I learned that dogs bark...''"
         and ul = sample_unicode_lower and sl = sample_str_list and sd = sample_str_dict
         and w = "\<lparr>state = [], facts = [''old''], user_preferences = [], hardware_events = []\<rparr>"]
    by (simp add: sample_world_def)
qed

lemma prefer_step_eq:
  assumes "text_after_first ''you prefer'' (py_lower ul r) = Some t"
  shows "prefer_step ul r w =
           update_user_preference ''user_preference''
             (PyStr (py_strip ''. '' (text_before_first ''you prefer'' t))) w"
proof -
  have "py_in ''you prefer'' (py_lower ul r)"
    using assms by (simp add: py_in_text_after_first)
  moreover have "split_from ''you prefer'' [] (py_lower ul r) ! 1
      = text_before_first ''you prefer'' t"
    using assms by (intro split_from_second(2)) simp_all
  ultimately show ?thesis
    unfolding prefer_step_def by (simp only: if_True)
qed

lemma user_preferences_learn_step [simp]:
  "user_preferences (learn_step r w) = user_preferences w"
  by (simp add: learn_step_def add_fact_def)

lemma user_preferences_keyword_step [simp]:
  "user_preferences (keyword_step ul r w) = user_preferences w"
  by (simp add: keyword_step_def)

lemma hardware_events_learn_step [simp]:
  "hardware_events (learn_step r w) = hardware_events w"
  by (simp add: learn_step_def add_fact_def)

lemma hardware_events_prefer_step [simp]:
  "hardware_events (prefer_step ul r w) = hardware_events w"
  by (simp add: prefer_step_def update_user_preference_def)

text \<open>
  Claim C5, as amended.  Whenever the lower-cased reply contains "you prefer", the
  extraction step stores, under the one key "user\_preference" and replacing any value
  stored there before, the text that lies between the first occurrence of "you prefer" and
  the next occurrence of it (up to the end of the reply when there is no other), taken from
  the lower-cased reply, with the periods and spaces at its two ends removed.  The reply
  "I noticed you prefer dark mode." stores "dark mode", and so does
  "I Noticed YOU PREFER Dark Mode.".
\<close>

theorem preference_stored:
  "(py_in ''you prefer'' (py_lower ul reply) \<longrightarrow>
      (\<exists>t. text_after_first ''you prefer'' (py_lower ul reply) = Some t \<and>
           user_preferences
             (snd (update_world_model_from_response ul (WorldModel_object sl sd) reply w))
             = AList.update ''user_preference''
                 (PyStr (py_strip ''. '' (text_before_first ''you prefer'' t)))
                 (user_preferences w))) \<and>
   user_preferences
     (snd (update_world_model_from_response ul (WorldModel_object sl sd)
             ''I noticed you prefer dark mode.'' w))
     = AList.update ''user_preference'' (PyStr ''dark mode'') (user_preferences w) \<and>
   user_preferences
     (snd (update_world_model_from_response ul (WorldModel_object sl sd)
             ''I Noticed YOU PREFER Dark Mode.'' w))
     = AList.update ''user_preference'' (PyStr ''dark mode'') (user_preferences w)"
proof -
  have general: "\<exists>t. text_after_first ''you prefer'' (py_lower ul r) = Some t \<and>
           user_preferences
             (snd (update_world_model_from_response ul (WorldModel_object sl sd) r w))
             = AList.update ''user_preference''
                 (PyStr (py_strip ''. '' (text_before_first ''you prefer'' t)))
                 (user_preferences w)" if occ: "py_in ''you prefer'' (py_lower ul r)" for r
  proof -
    from occ obtain t where t: "text_after_first ''you prefer'' (py_lower ul r) = Some t"
      by (auto simp: py_in_text_after_first)
    show ?thesis
      using t
      by (simp add: update_world_model_from_response_WorldModel prefer_step_eq [OF t]
          update_user_preference_def)
  qed
  have low1: "py_lower ul ''I noticed you prefer dark mode.'' = ''i noticed you prefer dark mode.''"
    by (simp add: py_lower_def is_ascii_def lower_char_def)
  have low2: "py_lower ul ''I Noticed YOU PREFER Dark Mode.'' = ''i noticed you prefer dark mode.''"
    by (simp add: py_lower_def is_ascii_def lower_char_def)
  have occ: "py_in ''you prefer'' ''i noticed you prefer dark mode.''"
    by simp
  have t: "text_after_first ''you prefer'' ''i noticed you prefer dark mode.'' = Some '' dark mode.''"
    by simp
  have strip: "py_strip ''. '' (text_before_first ''you prefer'' '' dark mode.'') = ''dark mode''"
    by (simp add: py_strip_def)
  have first: "user_preferences
     (snd (update_world_model_from_response ul (WorldModel_object sl sd)
             ''I noticed you prefer dark mode.'' w))
     = AList.update ''user_preference'' (PyStr ''dark mode'') (user_preferences w)"
    using general [of "''I noticed you prefer dark mode.''"] occ t strip
    unfolding low1 by auto
  have second: "user_preferences
     (snd (update_world_model_from_response ul (WorldModel_object sl sd)
             ''I Noticed YOU PREFER Dark Mode.'' w))
     = AList.update ''user_preference'' (PyStr ''dark mode'') (user_preferences w)"
    using general [of "''I Noticed YOU PREFER Dark Mode.''"] occ t strip
    unfolding low2 by auto
  show ?thesis
    using general first second by blast
qed

theorem preference_stored_witness:
  "py_in ''you prefer'' (py_lower sample_unicode_lower (''You Prefer CAF'' @ [CHR 0xC9] @ ''.'')) \<and>
   user_preferences
     (snd (update_world_model_from_response sample_unicode_lower sample_world
        (''You Prefer CAF'' @ [CHR 0xC9] @ ''.'')
        \<lparr>state = [], facts = [], user_preferences = [(''user_preference'', PyStr ''milk'')],
         hardware_events = []\<rparr>))
     = [(''user_preference'', PyStr (''caf'' @ [CHR 0xE9]))]"
proof -
  have low: "py_lower sample_unicode_lower (''You Prefer CAF'' @ [CHR 0xC9] @ ''.'')
               = ''you prefer caf'' @ [CHR 0xE9] @ ''.''"
    by (simp add: py_lower_def is_ascii_def sample_unicode_lower_def lower_char_def)
  have occ: "py_in ''you prefer'' (py_lower sample_unicode_lower (''You Prefer CAF'' @ [CHR 0xC9] @ ''.''))"
    unfolding low by simp
  have t: "text_after_first ''you prefer''
             (py_lower sample_unicode_lower (''You Prefer CAF'' @ [CHR 0xC9] @ ''.''))
             = Some ('' caf'' @ [CHR 0xE9] @ ''.'')"
    unfolding low by simp
  have "py_strip ''. '' (text_before_first ''you prefer'' ('' caf'' @ [CHR 0xE9] @ ''.''))
          = ''caf'' @ [CHR 0xE9]"
    by (simp add: py_strip_def)
  then show ?thesis
    using occ t preference_stored
      [where reply = "''You Prefer CAF'' @ [CHR 0xC9] @ ''.''" and ul = sample_unicode_lower
         and sl = sample_str_list and sd = sample_str_dict
         and w = "\<lparr>state = [], facts = [],
                   user_preferences = [(''user_preference'', PyStr ''milk'')],
                   hardware_events = []\<rparr>"]
    by (simp add: sample_world_def)
qed

text \<open>
  Claim C5 as stated fails when "you prefer" occurs twice: the text after the first
  occurrence, stripped, is "tea, but you prefer milk", and the value stored is "tea, but".
\<close>

theorem preference_after_first_counterexample:
  "user_preferences
     (snd (update_world_model_from_response sample_unicode_lower sample_world
             ''you prefer tea, but you prefer milk.'' WorldModel_init))
     = [(''user_preference'', PyStr ''tea, but'')] \<and>
   text_after_first ''you prefer''
       (py_lower sample_unicode_lower ''you prefer tea, but you prefer milk.'')
     = Some '' tea, but you prefer milk.'' \<and>
   py_strip ''. '' '' tea, but you prefer milk.'' = ''tea, but you prefer milk''"
proof -
  have low: "py_lower sample_unicode_lower ''you prefer tea, but you prefer milk.''
               = ''you prefer tea, but you prefer milk.''"
    by (simp add: py_lower_def is_ascii_def lower_char_def)
  have t: "text_after_first ''you prefer''
             (py_lower sample_unicode_lower ''you prefer tea, but you prefer milk.'')
             = Some '' tea, but you prefer milk.''"
    unfolding low by simp
  have "py_strip ''. '' (text_before_first ''you prefer'' '' tea, but you prefer milk.'')
          = ''tea, but''"
    by (simp add: py_strip_def)
  moreover have "py_strip ''. '' '' tea, but you prefer milk.'' = ''tea, but you prefer milk''"
    by (simp add: py_strip_def)
  ultimately show ?thesis
    using t
    by (simp add: sample_world_def update_world_model_from_response_WorldModel
        prefer_step_eq [OF t] update_user_preference_def WorldModel_init_def)
qed

text \<open>
  Claim C6.  The extraction step appends to the hardware events one entry
  "Hardware interaction mentioned: <keyword>" for each of the keywords button, motion,
  sensor, led (in this order) that occurs in the lower-cased reply, and nothing else.  The
  reply "the button and the led" appends exactly two entries, for button and for led;
  "Press the BUTTON" appends the entry for button, and "SENSORS in Motion, misLED" the
  entries for motion, sensor and led: the case of the letters in the reply does not matter.
\<close>

theorem keyword_events_recorded:
  "hardware_events (snd (update_world_model_from_response ul (WorldModel_object sl sd) reply w))
     = hardware_events w
       @ map (\<lambda>k. ''Hardware interaction mentioned: '' @ k)
           (filter (\<lambda>k. py_in k (py_lower ul reply)) [''button'', ''motion'', ''sensor'', ''led''])
   \<and> hardware_events
       (snd (update_world_model_from_response ul (WorldModel_object sl sd)
               ''the button and the led'' w))
     = hardware_events w
       @ [''Hardware interaction mentioned: button'', ''Hardware interaction mentioned: led'']
   \<and> hardware_events
       (snd (update_world_model_from_response ul (WorldModel_object sl sd)
               ''Press the BUTTON'' w))
     = hardware_events w @ [''Hardware interaction mentioned: button'']
   \<and> hardware_events
       (snd (update_world_model_from_response ul (WorldModel_object sl sd)
               ''SENSORS in Motion, misLED'' w))
     = hardware_events w
       @ [''Hardware interaction mentioned: motion'', ''Hardware interaction mentioned: sensor'',
          ''Hardware interaction mentioned: led'']"
proof -
  have general: "hardware_events (snd (update_world_model_from_response ul (WorldModel_object sl sd) r w))
     = hardware_events w
       @ map (\<lambda>k. ''Hardware interaction mentioned: '' @ k)
           (filter (\<lambda>k. py_in k (py_lower ul r)) [''button'', ''motion'', ''sensor'', ''led''])" for r
    by (simp add: update_world_model_from_response_WorldModel keyword_step_def
        hardware_keywords_def)
  have low1: "py_lower ul ''the button and the led'' = ''the button and the led''"
    by (simp add: py_lower_def is_ascii_def lower_char_def)
  have low2: "py_lower ul ''Press the BUTTON'' = ''press the button''"
    by (simp add: py_lower_def is_ascii_def lower_char_def)
  have low3: "py_lower ul ''SENSORS in Motion, misLED'' = ''sensors in motion, misled''"
    by (simp add: py_lower_def is_ascii_def lower_char_def)
  have f1: "filter (\<lambda>k. py_in k (py_lower ul ''the button and the led''))
          [''button'', ''motion'', ''sensor'', ''led''] = [''button'', ''led'']"
    unfolding low1 by simp
  have f2: "filter (\<lambda>k. py_in k (py_lower ul ''Press the BUTTON''))
          [''button'', ''motion'', ''sensor'', ''led''] = [''button'']"
    unfolding low2 by simp
  have f3: "filter (\<lambda>k. py_in k (py_lower ul ''SENSORS in Motion, misLED''))
          [''button'', ''motion'', ''sensor'', ''led''] = [''motion'', ''sensor'', ''led'']"
    unfolding low3 by simp
  show ?thesis
    using general [of "''the button and the led''"] general [of "''Press the BUTTON''"]
      general [of "''SENSORS in Motion, misLED''"] general [of reply]
    unfolding f1 f2 f3 by simp
qed

theorem keyword_events_recorded_witness:
  "hardware_events
     (snd (update_world_model_from_response sample_unicode_lower sample_world
             (''A MOTION Sensor in the caf'' @ [CHR 0xC9])
             \<lparr>state = [], facts = [], user_preferences = [], hardware_events = [''old'']\<rparr>))
     = [''old'', ''Hardware interaction mentioned: motion'',
        ''Hardware interaction mentioned: sensor'']"
proof -
  have low: "py_lower sample_unicode_lower (''A MOTION Sensor in the caf'' @ [CHR 0xC9])
               = ''a motion sensor in the caf'' @ [CHR 0xE9]"
    by (simp add: py_lower_def is_ascii_def sample_unicode_lower_def lower_char_def)
  have "filter (\<lambda>k. py_in k (py_lower sample_unicode_lower
                                (''A MOTION Sensor in the caf'' @ [CHR 0xC9])))
          [''button'', ''motion'', ''sensor'', ''led''] = [''motion'', ''sensor'']"
    unfolding low by simp
  then show ?thesis
    using keyword_events_recorded
      [where reply = "''A MOTION Sensor in the caf'' @ [CHR 0xC9]" and ul = sample_unicode_lower
         and sl = sample_str_list and sd = sample_str_dict
         and w = "\<lparr>state = [], facts = [], user_preferences = [], hardware_events = [''old'']\<rparr>"]
    by (simp add: sample_world_def)
qed

section \<open>One turn of ChatHandlerWorld\<close>

lemma update_world_model_from_response_returns:
  "fst (update_world_model_from_response ul obj r w) = Inr ()"
  by (simp add: update_world_model_from_response_def py_try_def split: prod.splits sum.splits)

lemma generate_response_run:
  assumes "obj_get_summary obj (world_model h) = (Inr ws, w1)"
  shows "generate_response ul obj api t_user t_reply prompt h =
     (case api (turn_messages h ws t_user prompt) (Some (turn_system_text h ws)) of
        Inl e \<Rightarrow>
          (Inl e, h\<lparr>conversation_history := conversation_history h
                       @ [\<lparr>role = ''user'', content = prompt, timestamp = t_user\<rparr>],
                     world_model := w1\<rparr>)
      | Inr reply \<Rightarrow>
          (Inr reply,
           h\<lparr>conversation_history := conversation_history h
                  @ [\<lparr>role = ''user'', content = prompt, timestamp = t_user\<rparr>,
                     \<lparr>role = ''assistant'', content = reply, timestamp = t_reply\<rparr>],
              world_model := snd (update_world_model_from_response ul obj reply w1)\<rparr>))"
proof (cases "api (turn_messages h ws t_user prompt) (Some (turn_system_text h ws))")
  case (Inl e)
  then show ?thesis
    using assms
    by (simp add: generate_response_def py_bind_def append_history_def on_world_model_def
        py_lift_def turn_messages_def turn_system_text_def Let_def)
next
  case (Inr reply)
  obtain w2 where w2: "update_world_model_from_response ul obj reply w1 = (Inr (), w2)"
    using update_world_model_from_response_returns [of ul obj reply w1]
    by (cases "update_world_model_from_response ul obj reply w1") simp
  show ?thesis
    using assms Inr w2
    by (simp add: generate_response_def py_bind_def append_history_def on_world_model_def
        py_lift_def py_return_def turn_messages_def turn_system_text_def Let_def)
qed

lemma full_system_prompt_nonempty: "full_system_prompt sp ws \<noteq> []"
  by (simp add: full_system_prompt_def)

text \<open>
  For a positive \<open>max_history\<close> the list \<open>messages\<close> built by \<open>generate_response\<close> is the
  system message followed by the last \<open>max_history\<close> entries of the history (all of them
  when there are fewer), in their order.
\<close>

lemma recent_history_positive:
  "0 < mh \<Longrightarrow>
   build_messages st mh hist =
     \<lparr>role = ''system'', content = st\<rparr>
     # map (\<lambda>msg. \<lparr>role = role msg, content = content msg\<rparr>)
         (drop (length hist - nat mh) hist)"
  by (simp add: build_messages_def py_slice_from_def nat_diff_distrib')

lemma recent_history_length:
  "0 < mh \<Longrightarrow> length (build_messages st mh hist) = 1 + min (nat mh) (length hist)"
  by (simp add: recent_history_positive)

text \<open>
  Claim C8.  In a turn whose world summary was produced, an exception of the call
  to the language model is the outcome of \<open>generate_response\<close>: it is raised to the
  caller.  An exception inside the extraction step is caught: the step itself returns
  normally, and the turn returns the reply unchanged, with both messages in the history
  and the world model as the extraction left it when it failed.
\<close>

theorem model_failure_raised_extraction_failure_swallowed:
  "(obj_get_summary obj (world_model h) = (Inr ws, w1) \<and>
    api (turn_messages h ws t_user prompt) (Some (turn_system_text h ws)) = Inl e \<longrightarrow>
      fst (generate_response ul obj api t_user t_reply prompt h) = Inl e) \<and>
   (update_world_model_from_response_body ul obj reply w = (Inl e', w') \<longrightarrow>
      update_world_model_from_response ul obj reply w = (Inr (), w')) \<and>
   (obj_get_summary obj (world_model h) = (Inr ws, w1) \<and>
    api (turn_messages h ws t_user prompt) (Some (turn_system_text h ws)) = Inr reply \<and>
    update_world_model_from_response_body ul obj reply w1 = (Inl e', w2) \<longrightarrow>
      generate_response ul obj api t_user t_reply prompt h =
        (Inr reply,
         h\<lparr>conversation_history := conversation_history h
                @ [\<lparr>role = ''user'', content = prompt, timestamp = t_user\<rparr>,
                   \<lparr>role = ''assistant'', content = reply, timestamp = t_reply\<rparr>],
            world_model := w2\<rparr>))"
proof -
  have swallow: "update_world_model_from_response ul obj r v = (Inr (), v')"
    if "update_world_model_from_response_body ul obj r v = (Inl x, v')" for r v v' x
    using that by (simp add: update_world_model_from_response_def py_try_def)
  show ?thesis
  proof (intro conjI impI)
    assume "obj_get_summary obj (world_model h) = (Inr ws, w1) \<and>
      api (turn_messages h ws t_user prompt) (Some (turn_system_text h ws)) = Inl e"
    then show "fst (generate_response ul obj api t_user t_reply prompt h) = Inl e"
      by (simp add: generate_response_run)
  next
    assume "update_world_model_from_response_body ul obj reply w = (Inl e', w')"
    then show "update_world_model_from_response ul obj reply w = (Inr (), w')"
      by (rule swallow)
  next
    assume a: "obj_get_summary obj (world_model h) = (Inr ws, w1) \<and>
      api (turn_messages h ws t_user prompt) (Some (turn_system_text h ws)) = Inr reply \<and>
      update_world_model_from_response_body ul obj reply w1 = (Inl e', w2)"
    then have "update_world_model_from_response ul obj reply w1 = (Inr (), w2)"
      by (intro swallow) simp
    with a show "generate_response ul obj api t_user t_reply prompt h =
        (Inr reply,
         h\<lparr>conversation_history := conversation_history h
                @ [\<lparr>role = ''user'', content = prompt, timestamp = t_user\<rparr>,
                   \<lparr>role = ''assistant'', content = reply, timestamp = t_reply\<rparr>],
            world_model := w2\<rparr>)"
      by (simp add: generate_response_run)
  qed
qed

lemma failing_world_summary:
  "obj_get_summary failing_world w = (Inr (get_summary sample_str_list sample_str_dict w), w)"
  by (simp add: failing_world_def sample_world_def WorldModel_object_def)

lemma failing_world_body:
  "update_world_model_from_response_body ul failing_world ''I learned that tea is hot.'' w
     = (Inl (OtherException ''fact store failed''), w)"
  by (simp add: update_world_model_from_response_body_def py_bind_def py_lift_def py_split_def
      py_index_last split_from_nonempty failing_world_def)

theorem model_failure_raised_extraction_failure_swallowed_witness:
  "fst (generate_response sample_unicode_lower failing_world
          (\<lambda>messages system_prompt. Inl (OtherException ''request timed out''))
          ''5'' ''6'' ''hello'' (sample_handler 10))
     = Inl (OtherException ''request timed out'') \<and>
   update_world_model_from_response_body sample_unicode_lower failing_world
       ''I learned that tea is hot.'' (world_model (sample_handler 10))
     = (Inl (OtherException ''fact store failed''), world_model (sample_handler 10)) \<and>
   update_world_model_from_response sample_unicode_lower failing_world
       ''I learned that tea is hot.'' (world_model (sample_handler 10))
     = (Inr (), world_model (sample_handler 10)) \<and>
   generate_response sample_unicode_lower failing_world
       (\<lambda>messages system_prompt. Inr ''I learned that tea is hot.'')
       ''5'' ''6'' ''hello'' (sample_handler 10)
     = (Inr ''I learned that tea is hot.'',
        (sample_handler 10)
          \<lparr>conversation_history := sample_history
             @ [\<lparr>role = ''user'', content = ''hello'', timestamp = ''5''\<rparr>,
                \<lparr>role = ''assistant'', content = ''I learned that tea is hot.'',
                 timestamp = ''6''\<rparr>]\<rparr>)"
proof -
  let ?h = "sample_handler 10"
  let ?ws = "get_summary sample_str_list sample_str_dict (world_model ?h)"
  have s: "obj_get_summary failing_world (world_model ?h) = (Inr ?ws, world_model ?h)"
    by (rule failing_world_summary)
  have b: "update_world_model_from_response_body sample_unicode_lower failing_world
       ''I learned that tea is hot.'' (world_model ?h)
     = (Inl (OtherException ''fact store failed''), world_model ?h)"
    by (rule failing_world_body)
  have hist: "conversation_history ?h = sample_history"
    by (simp add: sample_handler_def)
  show ?thesis
    using s b hist
      model_failure_raised_extraction_failure_swallowed
        [where obj = failing_world and h = ?h and ws = ?ws and ?w1.0 = "world_model ?h"
           and api = "\<lambda>messages system_prompt. Inl (OtherException ''request timed out'')"
           and e = "OtherException ''request timed out''" and ul = sample_unicode_lower
           and t_user = "''5''" and t_reply = "''6''" and prompt = "''hello''"
           and reply = "''I learned that tea is hot.''" and w = "world_model ?h"
           and w' = "world_model ?h" and e' = "OtherException ''fact store failed''"]
      model_failure_raised_extraction_failure_swallowed
        [where obj = failing_world and h = ?h and ws = ?ws and ?w1.0 = "world_model ?h"
           and api = "\<lambda>messages system_prompt. Inr ''I learned that tea is hot.''"
           and ul = sample_unicode_lower
           and t_user = "''5''" and t_reply = "''6''" and prompt = "''hello''"
           and reply = "''I learned that tea is hot.''" and w = "world_model ?h"
           and w' = "world_model ?h" and ?w2.0 = "world_model ?h"
           and e' = "OtherException ''fact store failed''"]
    by simp
qed

text \<open>
  Claim C10.  With an instance of WorldModel, when the call to the language model
  raises, \<open>generate_response\<close> raises the same exception and leaves the handler as it was
  except for the user's message appended to the conversation history: no assistant message
  is appended, and the world model (facts, preferences, hardware events, state) is
  unchanged.
\<close>

theorem failed_turn_keeps_user_message:
  "api (turn_messages h (get_summary sl sd (world_model h)) t_user prompt)
       (Some (turn_system_text h (get_summary sl sd (world_model h)))) = Inl e \<Longrightarrow>
   generate_response ul (WorldModel_object sl sd) api t_user t_reply prompt h =
     (Inl e, h\<lparr>conversation_history := conversation_history h
                  @ [\<lparr>role = ''user'', content = prompt, timestamp = t_user\<rparr>]\<rparr>)"
proof -
  assume fail: "api (turn_messages h (get_summary sl sd (world_model h)) t_user prompt)
       (Some (turn_system_text h (get_summary sl sd (world_model h)))) = Inl e"
  have "obj_get_summary (WorldModel_object sl sd) (world_model h)
          = (Inr (get_summary sl sd (world_model h)), world_model h)"
    by (simp add: WorldModel_object_def)
  from generate_response_run [OF this] fail show ?thesis
    by simp
qed

theorem failed_turn_keeps_user_message_witness:
  "(\<lambda>messages system_prompt. Inl (OtherException ''request timed out''))
       (turn_messages (sample_handler 10)
          (get_summary sample_str_list sample_str_dict (world_model (sample_handler 10)))
          ''5'' ''hello'')
       (Some (turn_system_text (sample_handler 10)
          (get_summary sample_str_list sample_str_dict (world_model (sample_handler 10)))))
     = (Inl (OtherException ''request timed out'') :: exc + string) \<and>
   generate_response sample_unicode_lower sample_world
       (\<lambda>messages system_prompt. Inl (OtherException ''request timed out''))
       ''5'' ''6'' ''hello'' (sample_handler 10)
     = (Inl (OtherException ''request timed out''),
        \<lparr>config = \<lparr>SYSTEM_PROMPT = None\<rparr>,
         world_model = \<lparr>state = [], facts = [''known''], user_preferences = [],
                         hardware_events = []\<rparr>,
         conversation_history = sample_history
           @ [\<lparr>role = ''user'', content = ''hello'', timestamp = ''5''\<rparr>],
         max_history = 10\<rparr>)"
  using failed_turn_keeps_user_message
    [where api = "\<lambda>messages system_prompt. Inl (OtherException ''request timed out'')"
       and h = "sample_handler 10" and sl = sample_str_list and sd = sample_str_dict
       and t_user = "''5''" and t_reply = "''6''" and prompt = "''hello''"
       and e = "OtherException ''request timed out''" and ul = sample_unicode_lower]
  by (simp add: sample_world_def sample_handler_def)

lemma echo_roles_request:
  "APIHandler_generate_response us echo_roles messages (Some (full_system_prompt sp ws))
     = Inr (py_strip_whitespace us
              (py_join '','' (''system'' # map role messages)))"
  by (simp add: APIHandler_generate_response_def APIHandler_attempt_def echo_roles_def
      formatted_messages_def full_system_prompt_nonempty)

text \<open>
  Claim C3.  The list that reaches the language model is not one system message followed
  by the last \<open>max_history\<close> messages.  APIHandler puts the system prompt in front of a
  list that already starts with the same system message, so the request has it twice; and
  with \<open>max_history = 0\<close> the slice is the whole history.  With a history of five messages
  (four earlier ones and the user's new one) the remote model is sent two system messages
  and three messages for \<open>max_history = 3\<close>, and two system messages and all five
  messages for \<open>max_history = 0\<close>.
\<close>

theorem system_message_sent_twice:
  "formatted_messages (build_messages (full_system_prompt sp ws) mh hist)
       (Some (full_system_prompt sp ws))
     = \<lparr>role = ''system'', content = full_system_prompt sp ws\<rparr>
       # \<lparr>role = ''system'', content = full_system_prompt sp ws\<rparr>
       # map (\<lambda>msg. \<lparr>role = role msg, content = content msg\<rparr>) (py_slice_from (- mh) hist) \<and>
   build_messages st 0 hist =
     \<lparr>role = ''system'', content = st\<rparr>
     # map (\<lambda>msg. \<lparr>role = role msg, content = content msg\<rparr>) hist \<and>
   fst (generate_response ul (WorldModel_object sl sd) (APIHandler_generate_response us echo_roles)
          ''5'' ''6'' ''q3''
          \<lparr>config = \<lparr>SYSTEM_PROMPT = None\<rparr>, world_model = w,
           conversation_history = sample_history, max_history = 3\<rparr>)
     = Inr ''system,system,user,assistant,user'' \<and>
   fst (generate_response ul (WorldModel_object sl sd) (APIHandler_generate_response us echo_roles)
          ''5'' ''6'' ''q3''
          \<lparr>config = \<lparr>SYSTEM_PROMPT = None\<rparr>, world_model = w,
           conversation_history = sample_history, max_history = 0\<rparr>)
     = Inr ''system,system,user,assistant,user,assistant,user''"
proof -
  have twice: "formatted_messages (build_messages (full_system_prompt sp ws) mh hist)
       (Some (full_system_prompt sp ws))
     = \<lparr>role = ''system'', content = full_system_prompt sp ws\<rparr>
       # \<lparr>role = ''system'', content = full_system_prompt sp ws\<rparr>
       # map (\<lambda>msg. \<lparr>role = role msg, content = content msg\<rparr>) (py_slice_from (- mh) hist)"
    by (simp add: formatted_messages_def build_messages_def full_system_prompt_nonempty)
  have zero: "build_messages st 0 hist =
     \<lparr>role = ''system'', content = st\<rparr>
     # map (\<lambda>msg. \<lparr>role = role msg, content = content msg\<rparr>) hist"
    by (simp add: build_messages_def py_slice_from_def)
  have summary: "obj_get_summary (WorldModel_object sl sd) w = (Inr (get_summary sl sd w), w)"
    by (simp add: WorldModel_object_def)
  have strip3: "py_strip_whitespace us ''system,system,user,assistant,user''
                  = ''system,system,user,assistant,user''"
    by (simp add: py_strip_whitespace_def is_ascii_def py_strip_def py_whitespace_def)
  have strip0: "py_strip_whitespace us ''system,system,user,assistant,user,assistant,user''
                  = ''system,system,user,assistant,user,assistant,user''"
    by (simp add: py_strip_whitespace_def is_ascii_def py_strip_def py_whitespace_def)
  have three: "fst (generate_response ul (WorldModel_object sl sd)
          (APIHandler_generate_response us echo_roles) ''5'' ''6'' ''q3''
          \<lparr>config = \<lparr>SYSTEM_PROMPT = None\<rparr>, world_model = w,
           conversation_history = sample_history, max_history = 3\<rparr>)
     = Inr ''system,system,user,assistant,user''"
    using summary
    by (simp add: generate_response_run [where ws = "get_summary sl sd w" and ?w1.0 = w]
        turn_system_text_def turn_messages_def echo_roles_request build_messages_def
        py_slice_from_def sample_history_def strip3)
  have none: "fst (generate_response ul (WorldModel_object sl sd)
          (APIHandler_generate_response us echo_roles) ''5'' ''6'' ''q3''
          \<lparr>config = \<lparr>SYSTEM_PROMPT = None\<rparr>, world_model = w,
           conversation_history = sample_history, max_history = 0\<rparr>)
     = Inr ''system,system,user,assistant,user,assistant,user''"
    using summary
    by (simp add: generate_response_run [where ws = "get_summary sl sd w" and ?w1.0 = w]
        turn_system_text_def turn_messages_def echo_roles_request build_messages_def
        py_slice_from_def sample_history_def strip0)
  show ?thesis
    using twice zero three none by blast
qed

section \<open>The monitoring loop of HardwareIntegration\<close>

lemma events_fired_log_record:
  "events_fired (log_record l m h) =
     events_fired h @ (if l = DEBUG \<and> prefix ''Hardware event: '' m then [m] else [])"
  by (simp add: events_fired_def log_record_def)













end
